theory Spec2Isabelle
  imports Main "HOL-Library.Sublist"
begin

section \<open>Data model\<close>

text \<open>
  The dashboard client of the BUAS repository: \<^verbatim>\<open>services/api.js\<close> (the transport
  adapter), \<^verbatim>\<open>components/Dashboard.js\<close> (polling, commands, audio overlay) and the
  \<^verbatim>\<open>UserList\<close> component (search and status filter).

  JavaScript strings are modelled as \<^typ>\<open>string\<close>, a character standing for the UTF-16
  code unit of the same number. A property that may be
  \<^verbatim>\<open>undefined\<close> or \<^verbatim>\<open>null\<close> is an \<^typ>\<open>'a option\<close>. Of a device only the
  properties read by the code under study are kept.
\<close>

record user =
  user_id :: string
  status :: string
  device_name :: "string option"
  latest_audio :: "string option"

record stats =
  stats_total_users :: int
  stats_active_sessions :: int
  stats_total_recordings :: int

text \<open>
  The JSON body of \<^verbatim>\<open>/api/dashboard-data\<close>. Every property is optional on the wire.
  A body that is JSON \<^verbatim>\<open>null\<close> is \<^verbatim>\<open>None\<close>.
\<close>

record payload =
  active_sessions_count :: "int option"
  total_users :: "int option"
  connection_status :: "string option"
  users :: "user list option"
  active_sessions :: "string list option"
  stats :: "stats option"
  payload_error :: "string option"
  last_updated :: "string option"

text \<open>
  A \<^verbatim>\<open>Date\<close> object, as far as the code looks at it: its epoch milliseconds and the text
  that \<^verbatim>\<open>toISOString()\<close> gives for it.
\<close>

record date =
  epoch_ms :: nat
  iso :: string

definition toISOString :: "date \<Rightarrow> string" where
  "toISOString d = iso d"

text \<open>The build-time environment \<^verbatim>\<open>process.env\<close>.\<close>

record env =
  NODE_ENV :: "string option"
  REACT_APP_VPS_URL :: "string option"
  REACT_APP_API_URL :: "string option"

text \<open>
  What \<^verbatim>\<open>fetch(url, config)\<close> settles to: a rejection with the error's message, or a
  response with its status and what \<^verbatim>\<open>response.json()\<close> settles to (a rejection
  message for a malformed body, or the parsed value).
\<close>

datatype fetch_result =
  Rejected string
| Responded nat "string + payload option"

datatype log =
  ConsoleError string string
| ConsoleWarn string

record req =
  req_method :: string
  req_url :: string

record audio =
  url :: string
  user :: string
  filename :: string

text \<open>A poll of \<^verbatim>\<open>fetchDashboardData\<close> that has started and not finished.\<close>

datatype stage = AwaitHealth | AwaitData

text \<open>
  The state of the mounted \<^verbatim>\<open>Dashboard\<close> component: its eight \<^verbatim>\<open>useState\<close> cells,
  followed by the effects the code has on its surroundings: the console, the requests handed
  to \<^verbatim>\<open>fetch\<close>, whether the interval timer of the polling effect is set, and the polls
  in progress.
\<close>

record dashboard =
  dashboardData :: "payload option"
  loading :: bool
  error :: "string option"
  isPolling :: bool
  lastUpdated :: "date option"
  connectionStatus :: string
  selectedUser :: "string option"
  currentAudio :: "audio option"
  console :: "log list"
  network :: "req list"
  pollInterval :: bool
  inflight :: "stage list"

section \<open>JavaScript helpers\<close>

text \<open>\<^verbatim>\<open>a || b\<close> on an optional string: \<^verbatim>\<open>undefined\<close> and the empty string are falsy.\<close>

definition truthy :: "string option \<Rightarrow> bool" where
  "truthy a = (case a of None \<Rightarrow> False | Some s \<Rightarrow> s \<noteq> [])"

definition or_else :: "string option \<Rightarrow> string \<Rightarrow> string" where
  "or_else a b = (case a of None \<Rightarrow> b | Some s \<Rightarrow> if s = [] then b else s)"

text \<open>Decimal text of a number, as a template literal renders \<^verbatim>\<open>response.status\<close>.\<close>

definition digit_char :: "nat \<Rightarrow> char" where
  "digit_char d = char_of (48 + d)"

fun show_nat :: "nat \<Rightarrow> string" where
  "show_nat n = (if n < 10 then [digit_char n] else show_nat (n div 10) @ [digit_char (n mod 10)])"

declare show_nat.simps [simp del]

text \<open>\<^verbatim>\<open>response.ok\<close> of the Fetch API: the status is in the range 200 to 299.\<close>

definition ok :: "nat \<Rightarrow> bool" where
  "ok st = (200 \<le> st \<and> st \<le> 299)"

section \<open>api.js\<close>

definition getApiUrl :: "env \<Rightarrow> string" where
  "getApiUrl e =
     (if NODE_ENV e = Some ''production''
      then or_else (REACT_APP_VPS_URL e) ''http://143.244.133.125:5000''
      else or_else (REACT_APP_API_URL e) ''http://localhost:5000'')"

definition API_BASE_URL :: "env \<Rightarrow> string" where
  "API_BASE_URL e = getApiUrl e"

text \<open>The exported instance is built with the default argument of the constructor.\<close>

definition baseURL :: "env \<Rightarrow> string" where
  "baseURL e = API_BASE_URL e"

text \<open>
  The \<^verbatim>\<open>try\<close> block of \<^verbatim>\<open>request\<close>: \<^verbatim>\<open>Inl\<close> is the message of the error it throws.
\<close>

fun attempt :: "fetch_result \<Rightarrow> string + payload option" where
  "attempt (Rejected msg) = Inl msg"
| "attempt (Responded st body) =
     (if \<not> ok st then Inl (''HTTP error! status: '' @ show_nat st) else body)"

text \<open>The object literal returned by the \<^verbatim>\<open>catch\<close> block for the dashboard endpoint.\<close>

definition fallback :: "string \<Rightarrow> date \<Rightarrow> payload" where
  "fallback msg now =
     \<lparr> active_sessions_count = Some 0,
       total_users = Some 0,
       connection_status = Some ''error'',
       users = Some [],
       active_sessions = Some [],
       stats = Some \<lparr> stats_total_users = 0, stats_active_sessions = 0,
                     stats_total_recordings = 0 \<rparr>,
       payload_error = Some msg,
       last_updated = Some (toISOString now) \<rparr>"

text \<open>
  \<^verbatim>\<open>request\<close> in two halves, split at its \<^verbatim>\<open>await fetch\<close>: handing the request to
  \<^verbatim>\<open>fetch\<close>, and the rest once \<^verbatim>\<open>fetch\<close> has settled. \<^verbatim>\<open>now\<close> is what
  \<^verbatim>\<open>new Date()\<close> gives in the \<^verbatim>\<open>catch\<close> block. The request headers are left out.
\<close>

definition request_send :: "env \<Rightarrow> string \<Rightarrow> string \<Rightarrow> dashboard \<Rightarrow> dashboard" where
  "request_send e method endpoint w =
     w\<lparr> network := network w @ [\<lparr> req_method = method, req_url = baseURL e @ endpoint \<rparr>] \<rparr>"

definition request_settle ::
  "string \<Rightarrow> fetch_result \<Rightarrow> date \<Rightarrow> dashboard \<Rightarrow> (string + payload option) \<times> dashboard" where
  "request_settle endpoint res now w =
     (case attempt res of
        Inr v \<Rightarrow> (Inr v, w)
      | Inl msg \<Rightarrow>
          (let w' = w\<lparr> console := console w @
                         [ConsoleError (''API request failed for '' @ endpoint @ '':'') msg] \<rparr>
           in if endpoint = ''/api/dashboard-data''
              then (Inr (Some (fallback msg now)), w')
              else (Inl msg, w')))"

definition request ::
  "env \<Rightarrow> string \<Rightarrow> string \<Rightarrow> fetch_result \<Rightarrow> date \<Rightarrow> dashboard
     \<Rightarrow> (string + payload option) \<times> dashboard" where
  "request e method endpoint res now w =
     request_settle endpoint res now (request_send e method endpoint w)"

definition getDashboardData ::
  "env \<Rightarrow> fetch_result \<Rightarrow> date \<Rightarrow> dashboard \<Rightarrow> (string + payload option) \<times> dashboard" where
  "getDashboardData e res now w = request e ''GET'' ''/api/dashboard-data'' res now w"

definition getHealthCheck ::
  "env \<Rightarrow> fetch_result \<Rightarrow> date \<Rightarrow> dashboard \<Rightarrow> (string + payload option) \<times> dashboard" where
  "getHealthCheck e res now w = request e ''GET'' ''/api/health'' res now w"

definition startListening ::
  "env \<Rightarrow> string \<Rightarrow> fetch_result \<Rightarrow> date \<Rightarrow> dashboard
     \<Rightarrow> (string + payload option) \<times> dashboard" where
  "startListening e userId res now w =
     request e ''POST'' (''/api/start-listening/'' @ userId) res now w"

definition stopListening ::
  "env \<Rightarrow> string \<Rightarrow> fetch_result \<Rightarrow> date \<Rightarrow> dashboard
     \<Rightarrow> (string + payload option) \<times> dashboard" where
  "stopListening e userId res now w =
     request e ''POST'' (''/api/stop-listening/'' @ userId) res now w"

section \<open>Dashboard.js\<close>

definition initial :: dashboard where
  "initial =
     \<lparr> dashboardData = None, loading = True, error = None, isPolling = True,
       lastUpdated = None, connectionStatus = ''connecting'', selectedUser = None,
       currentAudio = None, console = [], network = [], pollInterval = False,
       inflight = [] \<rparr>"

text \<open>
  What the surroundings give to one run of \<^verbatim>\<open>fetchDashboardData\<close>: the outcome of the two
  requests, the clock in the \<^verbatim>\<open>catch\<close> block of each, and the clock at
  \<^verbatim>\<open>setLastUpdated(new Date())\<close>.
\<close>

record poll_io =
  health :: fetch_result
  health_clock :: date
  data :: fetch_result
  data_clock :: date
  receipt_clock :: date

text \<open>
  The message of the \<^verbatim>\<open>TypeError\<close> thrown by \<^verbatim>\<open>data.connection_status\<close> when
  \<^verbatim>\<open>data\<close> is \<^verbatim>\<open>null\<close> (the wording of V8).
\<close>

definition null_message :: string where
  "null_message =
     ''Cannot read properties of null (reading '' @ [CHR 0x27] @ ''connection_status''
       @ [CHR 0x27] @ '')''"

text \<open>The \<^verbatim>\<open>catch (err)\<close> block of \<^verbatim>\<open>fetchDashboardData\<close>.\<close>

definition fetch_catch :: "string \<Rightarrow> dashboard \<Rightarrow> dashboard" where
  "fetch_catch msg w =
     w\<lparr> console := console w @ [ConsoleError ''Failed to fetch dashboard data:'' msg],
       error := Some msg,
       connectionStatus := ''error'' \<rparr>"

text \<open>
  \<^verbatim>\<open>fetchDashboardData\<close> from the moment \<^verbatim>\<open>await ApiService.getDashboardData()\<close>
  has settled with \<open>r\<close>, through \<^verbatim>\<open>finally\<close>.
\<close>

definition fetch_settled :: "(string + payload option) \<Rightarrow> date \<Rightarrow> dashboard \<Rightarrow> dashboard" where
  "fetch_settled r now w =
     (case r of
        Inl msg \<Rightarrow> fetch_catch msg w
      | Inr d \<Rightarrow>
          (let w1 = w\<lparr> dashboardData := d \<rparr>
           in case d of
                None \<Rightarrow> fetch_catch null_message w1
              | Some p \<Rightarrow>
                  w1\<lparr> connectionStatus := or_else (connection_status p) ''connected'',
                      lastUpdated := Some now,
                      error := None \<rparr>))
     \<lparr> loading := False \<rparr>"

definition health_warn :: "(string + payload option) \<Rightarrow> dashboard \<Rightarrow> dashboard" where
  "health_warn h w =
     (case h of
        Inl healthError \<Rightarrow>
          w\<lparr> console := console w @
                [ConsoleWarn ''Health check failed, but attempting dashboard data fetch...''] \<rparr>
      | Inr v \<Rightarrow> w)"

definition fetchDashboardData :: "env \<Rightarrow> poll_io \<Rightarrow> dashboard \<Rightarrow> dashboard" where
  "fetchDashboardData e io w =
     (let (h, w1) = getHealthCheck e (health io) (health_clock io) w;
          w2 = health_warn h w1;
          (d, w3) = getDashboardData e (data io) (data_clock io) w2
      in fetch_settled d (receipt_clock io) w3)"

definition handleStartListening ::
  "env \<Rightarrow> string \<Rightarrow> fetch_result \<Rightarrow> date \<Rightarrow> poll_io \<Rightarrow> dashboard \<Rightarrow> dashboard" where
  "handleStartListening e userId res now io w =
     (case startListening e userId res now w of
        (Inr ack, w1) \<Rightarrow> fetchDashboardData e io w1
      | (Inl err, w1) \<Rightarrow>
          w1\<lparr> console := console w1 @ [ConsoleError ''Failed to start listening:'' err] \<rparr>)"

definition handleStopListening ::
  "env \<Rightarrow> string \<Rightarrow> fetch_result \<Rightarrow> date \<Rightarrow> poll_io \<Rightarrow> dashboard \<Rightarrow> dashboard" where
  "handleStopListening e userId res now io w =
     (case stopListening e userId res now w of
        (Inr ack, w1) \<Rightarrow> fetchDashboardData e io w1
      | (Inl err, w1) \<Rightarrow>
          w1\<lparr> console := console w1 @ [ConsoleError ''Failed to stop listening:'' err] \<rparr>)"

text \<open>\<^verbatim>\<open>s.split(c)\<close> for a separator of one character; the result is never empty.\<close>

fun split :: "char \<Rightarrow> string \<Rightarrow> string list" where
  "split c [] = [[]]"
| "split c (x # xs) =
     (if x = c then [] # split c xs
      else (case split c xs of [] \<Rightarrow> [[x]] | s # ss \<Rightarrow> (x # s) # ss))"

text \<open>The constant \<^verbatim>\<open>apiBaseUrl\<close> computed inside \<^verbatim>\<open>handlePlayAudio\<close>.\<close>

definition apiBaseUrl :: "env \<Rightarrow> string" where
  "apiBaseUrl e =
     (if NODE_ENV e = Some ''production''
      then ''http://143.244.133.125:5000''
      else ''http://localhost:5000'')"

definition handlePlayAudio :: "env \<Rightarrow> user \<Rightarrow> dashboard \<Rightarrow> dashboard" where
  "handlePlayAudio e u w =
     (case latest_audio u of
        None \<Rightarrow> w
      | Some path \<Rightarrow>
          if path = [] then w
          else w\<lparr> currentAudio :=
                     Some \<lparr> url = apiBaseUrl e @ path,
                            user = user_id u,
                            filename = last (split CHR ''/'' path) \<rparr> \<rparr>)"

definition handleCloseAudio :: "dashboard \<Rightarrow> dashboard" where
  "handleCloseAudio w = w\<lparr> currentAudio := None \<rparr>"

definition togglePolling :: "dashboard \<Rightarrow> dashboard" where
  "togglePolling w = w\<lparr> isPolling := \<not> isPolling w \<rparr>"

text \<open>\<^verbatim>\<open>dashboardData?.users || []\<close>, the list handed to \<^verbatim>\<open>UserList\<close>.\<close>

definition shown_users :: "dashboard \<Rightarrow> user list" where
  "shown_users w =
     (case dashboardData w of
        None \<Rightarrow> []
      | Some p \<Rightarrow> (case users p of None \<Rightarrow> [] | Some us \<Rightarrow> us))"

subsection \<open>The polling effect and the event loop\<close>

text \<open>
  A call of \<^verbatim>\<open>fetchDashboardData\<close> runs up to its first \<^verbatim>\<open>await\<close>: the health request is
  handed to \<^verbatim>\<open>fetch\<close> and the poll is in progress. It goes on when that request settles
  (\<open>poll_health\<close>) and ends when the data request settles (\<open>poll_data\<close>).
\<close>

definition poll_begin :: "env \<Rightarrow> dashboard \<Rightarrow> dashboard" where
  "poll_begin e w =
     (request_send e ''GET'' ''/api/health'' w)\<lparr> inflight := inflight w @ [AwaitHealth] \<rparr>"

definition poll_health :: "env \<Rightarrow> fetch_result \<Rightarrow> date \<Rightarrow> dashboard \<Rightarrow> dashboard" where
  "poll_health e res now w =
     (let (h, w1) = request_settle ''/api/health'' res now w
      in request_send e ''GET'' ''/api/dashboard-data'' (health_warn h w1))"

definition poll_data :: "fetch_result \<Rightarrow> date \<Rightarrow> date \<Rightarrow> dashboard \<Rightarrow> dashboard" where
  "poll_data res now recv w =
     (let (d, w1) = request_settle ''/api/dashboard-data'' res now w
      in fetch_settled d recv w1)"

text \<open>
  The body of the \<^verbatim>\<open>useEffect\<close> with dependency \<^verbatim>\<open>[isPolling]\<close>, and the function it
  returns for its cleanup. \<open>pollInterval\<close> says whether an interval timer is set.
\<close>

definition effect_run :: "env \<Rightarrow> dashboard \<Rightarrow> dashboard" where
  "effect_run e w =
     (if isPolling w then (poll_begin e w)\<lparr> pollInterval := True \<rparr>
      else w\<lparr> pollInterval := False \<rparr>)"

definition effect_cleanup :: "dashboard \<Rightarrow> dashboard" where
  "effect_cleanup w = (if pollInterval w then w\<lparr> pollInterval := False \<rparr> else w)"

text \<open>
  The events of the single-threaded event loop. \<open>Tick\<close> is the interval timer firing (it
  fires only while set); \<open>HealthSettled i\<close> and \<open>DataSettled i\<close> are the completion of the
  pending request of the \<open>i\<close>-th poll in progress; \<open>Toggle\<close> is a click on the pause
  button, with the re-render that follows it (cleanup of the old effect, then the new one).
  While \<^verbatim>\<open>loading && !dashboardData\<close> holds the component renders the loading screen
  only, which has no button, so there is nothing to click.
\<close>

datatype event =
  Tick
| HealthSettled nat fetch_result date
| DataSettled nat fetch_result date date
| Toggle

fun step :: "env \<Rightarrow> event \<Rightarrow> dashboard \<Rightarrow> dashboard" where
  "step e Tick w = (if pollInterval w then poll_begin e w else w)"
| "step e (HealthSettled i res now) w =
     (if i < length (inflight w) \<and> inflight w ! i = AwaitHealth
      then (poll_health e res now w)\<lparr> inflight := (inflight w)[i := AwaitData] \<rparr>
      else w)"
| "step e (DataSettled i res now recv) w =
     (if i < length (inflight w) \<and> inflight w ! i = AwaitData
      then (poll_data res now recv w)
             \<lparr> inflight := take i (inflight w) @ drop (Suc i) (inflight w) \<rparr>
      else w)"
| "step e Toggle w =
     (if loading w \<and> dashboardData w = None then w
      else effect_run e (effect_cleanup (togglePolling w)))"

fun run :: "env \<Rightarrow> event list \<Rightarrow> dashboard \<Rightarrow> dashboard" where
  "run e [] w = w"
| "run e (ev # evs) w = run e evs (step e ev w)"

text \<open>The component after its first render and the first run of the effect.\<close>

definition mounted :: "env \<Rightarrow> dashboard" where
  "mounted e = effect_run e initial"

section \<open>UserList\<close>

text \<open>
  \<^verbatim>\<open>toLowerCase\<close>. A character of a \<^typ>\<open>string\<close> is read as the UTF-16 code unit
  of the same number, so the strings are those over U+0000 to U+00FF. On these
  \<^verbatim>\<open>String.prototype.toLowerCase\<close> maps each code unit by itself: the capital letters
  U+0041 to U+005A, U+00C0 to U+00D6 and U+00D8 to U+00DE go to the code unit 32 above, and
  every other code unit stays (U+00D7 is the multiplication sign).
\<close>

definition lower_char :: "char \<Rightarrow> char" where
  "lower_char c =
     (let n = (of_char c :: nat)
      in if (65 \<le> n \<and> n \<le> 90) \<or> (192 \<le> n \<and> n \<le> 214) \<or> (216 \<le> n \<and> n \<le> 222)
         then char_of (n + 32) else c)"


text \<open>\<^verbatim>\<open>s.includes(t)\<close>: \<open>t\<close> occurs in \<open>s\<close> at some position.\<close>

fun starts_with :: "string \<Rightarrow> string \<Rightarrow> bool" where
  "starts_with s [] = True"
| "starts_with [] (y # t) = False"
| "starts_with (x # s) (y # t) = (x = y \<and> starts_with s t)"

fun includes_str :: "string \<Rightarrow> string \<Rightarrow> bool" where
  "includes_str [] t = (t = [])"
| "includes_str (x # s) t = (starts_with (x # s) t \<or> includes_str s t)"


section \<open>The specification's wording\<close>

text \<open>
  The view-model as the specification words it. Two characters are the same ignoring case
  when they are equal or one is a capital letter and the other its small letter. A term
  is a substring of a text ignoring case when some run of consecutive characters of the text
  has the length of the term and agrees with it character by character, ignoring case. A
  device matches the search term when the term is such a substring of its id or of its label
  (an absent label matches nothing), and matches the status filter when the filter is
  \<^verbatim>\<open>all\<close> or equals its status; the result is the devices that match both, in their
  order.
\<close>

definition capital :: "char \<Rightarrow> bool" where
  "capital c =
     (let n = (of_char c :: nat)
      in (65 \<le> n \<and> n \<le> 90) \<or> (192 \<le> n \<and> n \<le> 214) \<or> (216 \<le> n \<and> n \<le> 222))"

definition small_of :: "char \<Rightarrow> char \<Rightarrow> bool" where
  "small_of c d = (capital c \<and> (of_char d :: nat) = of_char c + 32)"

definition same_ignoring_case :: "char \<Rightarrow> char \<Rightarrow> bool" where
  "same_ignoring_case c d = (c = d \<or> small_of c d \<or> small_of d c)"

fun begins_ignoring_case :: "string \<Rightarrow> string \<Rightarrow> bool" where
  "begins_ignoring_case [] s = True"
| "begins_ignoring_case (c # t) [] = False"
| "begins_ignoring_case (c # t) (d # s) = (same_ignoring_case c d \<and> begins_ignoring_case t s)"

fun substring_ignoring_case :: "string \<Rightarrow> string \<Rightarrow> bool" where
  "substring_ignoring_case t [] = (t = [])"
| "substring_ignoring_case t (d # s) =
     (begins_ignoring_case t (d # s) \<or> substring_ignoring_case t s)"




text \<open>
  A request failed: the network error, or a response whose status is not 2xx. A poll failed
  when its data request did; a malformed body counts as well.
\<close>

definition request_failed :: "fetch_result \<Rightarrow> bool" where
  "request_failed res =
     (case res of Rejected msg \<Rightarrow> True | Responded st body \<Rightarrow> st < 200 \<or> 299 < st)"

definition malformed :: "fetch_result \<Rightarrow> bool" where
  "malformed res =
     (case res of
        Rejected msg \<Rightarrow> False
      | Responded st body \<Rightarrow> (case body of Inl msg \<Rightarrow> True | Inr v \<Rightarrow> False))"

text \<open>How many requests for the dashboard data have been handed to \<^verbatim>\<open>fetch\<close>.\<close>

definition polls_issued :: "env \<Rightarrow> dashboard \<Rightarrow> nat" where
  "polls_issued e w =
     length (filter (\<lambda>r. req_url r = baseURL e @ ''/api/dashboard-data'') (network w))"

text \<open>What a render can see of the component: its eight \<^verbatim>\<open>useState\<close> cells.\<close>

definition cells ::
  "dashboard \<Rightarrow>
     payload option \<times> bool \<times> string option \<times> bool \<times> date option \<times> string \<times> string option
       \<times> audio option" where
  "cells w =
     (dashboardData w, loading w, error w, isPolling w, lastUpdated w, connectionStatus w,
      selectedUser w, currentAudio w)"

text \<open>Consecutive polls, each one finished before the next one starts.\<close>

fun polls :: "env \<Rightarrow> poll_io list \<Rightarrow> dashboard \<Rightarrow> dashboard" where
  "polls e [] w = w"
| "polls e (io # ios) w = polls e ios (fetchDashboardData e io w)"

text \<open>The audio sessions that are open: the content of the one cell that can hold one.\<close>

definition open_sessions :: "dashboard \<Rightarrow> audio list" where
  "open_sessions w = (case currentAudio w of None \<Rightarrow> [] | Some a \<Rightarrow> [a])"

section \<open>Concrete inputs\<close>

definition env_local :: env where
  "env_local = \<lparr> NODE_ENV = Some ''development'', REACT_APP_VPS_URL = None,
                 REACT_APP_API_URL = None \<rparr>"

definition env_override :: env where
  "env_override = \<lparr> NODE_ENV = Some ''development'', REACT_APP_VPS_URL = None,
                    REACT_APP_API_URL = Some ''http://10.0.0.5:5000'' \<rparr>"

definition date1 :: date where
  "date1 = \<lparr> epoch_ms = 1700000000000, iso = ''2023-11-14T22:13:20.000Z'' \<rparr>"

definition date2 :: date where
  "date2 = \<lparr> epoch_ms = 1700000002000, iso = ''2023-11-14T22:13:22.000Z'' \<rparr>"

definition date3 :: date where
  "date3 = \<lparr> epoch_ms = 1700000004000, iso = ''2023-11-14T22:13:24.000Z'' \<rparr>"

definition dev1 :: user where
  "dev1 = \<lparr> user_id = ''dev1'', status = ''idle'', device_name = None, latest_audio = None \<rparr>"

definition dev2 :: user where
  "dev2 = \<lparr> user_id = ''dev2'', status = ''listening'', device_name = Some ''Pixel 7'',
            latest_audio = Some ''/api/uploads/dev2/rec_0042.wav'' \<rparr>"

definition dev3 :: user where
  "dev3 = \<lparr> user_id = ''Tablet-3'', status = ''idle'', device_name = Some [],
            latest_audio = Some ''/api/uploads/Tablet-3/rec_0007.wav'' \<rparr>"


definition no_fields :: payload where
  "no_fields = \<lparr> active_sessions_count = None, total_users = None, connection_status = None,
                 users = None, active_sessions = None, stats = None, payload_error = None,
                 last_updated = None \<rparr>"

definition snapshot1 :: payload where
  "snapshot1 = no_fields \<lparr> active_sessions_count := Some 1, total_users := Some 2,
                            users := Some [dev1, dev2] \<rparr>"

definition snapshot2 :: payload where
  "snapshot2 = no_fields \<lparr> total_users := Some 1, connection_status := Some ''degraded'',
                            users := Some [dev2] \<rparr>"

definition io_ok :: "payload \<Rightarrow> poll_io" where
  "io_ok p = \<lparr> health = Responded 200 (Inr (Some no_fields)), health_clock = date1,
               data = Responded 200 (Inr (Some p)), data_clock = date1,
               receipt_clock = date2 \<rparr>"

definition io_down :: poll_io where
  "io_down = \<lparr> health = Rejected ''Failed to fetch'', health_clock = date1,
               data = Rejected ''Failed to fetch'', data_clock = date1,
               receipt_clock = date2 \<rparr>"

definition io_503 :: poll_io where
  "io_503 = \<lparr> health = Responded 200 (Inr (Some no_fields)), health_clock = date1,
              data = Responded 503 (Inl ''Unexpected token < in JSON at position 0''),
              data_clock = date1, receipt_clock = date2 \<rparr>"

definition ok_health :: fetch_result where
  "ok_health = Responded 200 (Inr (Some no_fields))"

text \<open>
  The component once the first poll has shown its snapshot and the first tick of the timer has
  started the second poll.
\<close>

definition second_poll :: dashboard where
  "second_poll =
     run env_local
       [HealthSettled 0 ok_health date1,
        DataSettled 0 (Responded 200 (Inr (Some snapshot1))) date1 date2,
        Tick]
       (mounted env_local)"

section \<open>Auxiliary facts\<close>

lemma attempt_failed: "request_failed res \<or> malformed res \<Longrightarrow> \<exists>msg. attempt res = Inl msg"
  by (cases res) (auto simp: request_failed_def malformed_def ok_def split: sum.splits)

lemma attempt_succeeded:
  "\<not> (request_failed res \<or> malformed res) \<Longrightarrow> \<exists>v. attempt res = Inr v"
  by (cases res) (auto simp: request_failed_def malformed_def ok_def split: sum.splits)

lemma show_503: "show_nat 503 = ''503''"
  by code_simp

lemma split_not_Nil: "split c s \<noteq> []"
  by (induction s) (auto split: list.splits)

lemma starts_with_prefix: "starts_with s t = prefix t s"
  by (induction s t rule: starts_with.induct) auto

lemma includes_str_sublist: "includes_str s t = sublist t s"
  by (induction s) (auto simp: starts_with_prefix sublist_Cons_right)

lemma request_settle_dashboard_failed:
  "attempt res = Inl msg \<Longrightarrow>
   request_settle ''/api/dashboard-data'' res now w =
     (Inr (Some (fallback msg now)),
      w\<lparr> console := console w @
             [ConsoleError ''API request failed for /api/dashboard-data:'' msg] \<rparr>)"
  by (simp add: request_settle_def)

lemma request_settle_ok:
  "attempt res = Inr v \<Longrightarrow> request_settle endpoint res now w = (Inr v, w)"
  by (simp add: request_settle_def)

lemma request_settle_other_failed:
  "attempt res = Inl msg \<Longrightarrow> endpoint \<noteq> ''/api/dashboard-data'' \<Longrightarrow>
   request_settle endpoint res now w =
     (Inl msg,
      w\<lparr> console := console w @
             [ConsoleError (''API request failed for '' @ endpoint @ '':'') msg] \<rparr>)"
  by (simp add: request_settle_def)

text \<open>A call of \<^verbatim>\<open>fetchDashboardData\<close> is its three phases of the event loop in a row.\<close>

lemma fetchDashboardData_phases:
  "fetchDashboardData e io w =
     poll_data (data io) (data_clock io) (receipt_clock io)
       (poll_health e (health io) (health_clock io) (request_send e ''GET'' ''/api/health'' w))"
  by (simp add: fetchDashboardData_def getHealthCheck_def getDashboardData_def request_def
        poll_data_def poll_health_def split: prod.splits)

lemma poll_health_cells: "cells (poll_health e res now w) = cells w"
  by (simp add: poll_health_def request_settle_def request_send_def health_warn_def cells_def
        Let_def split: sum.splits)

lemma request_send_cells: "cells (request_send e m ep w) = cells w"
  by (simp add: request_send_def cells_def)

lemma poll_data_failed:
  "attempt res = Inl msg \<Longrightarrow>
   cells (poll_data res now recv w) =
     (Some (fallback msg now), False, None, isPolling w, Some recv, ''error'',
      selectedUser w, currentAudio w)"
  by (simp add: poll_data_def request_settle_dashboard_failed fetch_settled_def cells_def
        fallback_def or_else_def)

lemma poll_data_ok:
  "attempt res = Inr (Some p) \<Longrightarrow>
   cells (poll_data res now recv w) =
     (Some p, False, None, isPolling w, Some recv, or_else (connection_status p) ''connected'',
      selectedUser w, currentAudio w)"
  by (simp add: poll_data_def request_settle_ok fetch_settled_def cells_def)

lemma poll_data_null:
  "attempt res = Inr None \<Longrightarrow>
   cells (poll_data res now recv w) =
     (None, False, Some null_message, isPolling w, lastUpdated w, ''error'',
      selectedUser w, currentAudio w)"
  by (simp add: poll_data_def request_settle_ok fetch_settled_def fetch_catch_def cells_def)

lemma cells_fields:
  "cells w = cells w' \<Longrightarrow>
     isPolling w = isPolling w' \<and> selectedUser w = selectedUser w' \<and>
     currentAudio w = currentAudio w' \<and> lastUpdated w = lastUpdated w'"
  by (simp add: cells_def)

lemma fetch_failed:
  assumes "attempt (data io) = Inl msg"
  shows "cells (fetchDashboardData e io w) =
     (Some (fallback msg (data_clock io)), False, None, isPolling w, Some (receipt_clock io),
      ''error'', selectedUser w, currentAudio w)"
proof -
  let ?w = "poll_health e (health io) (health_clock io) (request_send e ''GET'' ''/api/health'' w)"
  have "cells ?w = cells w"
    by (simp add: poll_health_cells request_send_cells)
  then have "isPolling ?w = isPolling w \<and> selectedUser ?w = selectedUser w \<and>
      currentAudio ?w = currentAudio w \<and> lastUpdated ?w = lastUpdated w"
    by (rule cells_fields)
  then show ?thesis
    by (simp add: fetchDashboardData_phases poll_data_failed [OF assms])
qed

lemma fetch_ok:
  assumes "attempt (data io) = Inr (Some p)"
  shows "cells (fetchDashboardData e io w) =
     (Some p, False, None, isPolling w, Some (receipt_clock io),
      or_else (connection_status p) ''connected'', selectedUser w, currentAudio w)"
proof -
  let ?w = "poll_health e (health io) (health_clock io) (request_send e ''GET'' ''/api/health'' w)"
  have "cells ?w = cells w"
    by (simp add: poll_health_cells request_send_cells)
  then have "isPolling ?w = isPolling w \<and> selectedUser ?w = selectedUser w \<and>
      currentAudio ?w = currentAudio w \<and> lastUpdated ?w = lastUpdated w"
    by (rule cells_fields)
  then show ?thesis
    by (simp add: fetchDashboardData_phases poll_data_ok [OF assms])
qed

text \<open>After failed polls in a row the cells are those after the last of them alone.\<close>

lemma polls_failed:
  "ios \<noteq> [] \<Longrightarrow> \<forall>io \<in> set ios. request_failed (data io) \<or> malformed (data io) \<Longrightarrow>
   cells (polls e ios w) = cells (fetchDashboardData e (last ios) w)"
proof (induction ios arbitrary: w)
  case Nil
  then show ?case by simp
next
  case (Cons io ios)
  show ?case
  proof (cases "ios = []")
    case True
    then show ?thesis by simp
  next
    case False
    from Cons.prems obtain msg where m: "attempt (data io) = Inl msg"
      using attempt_failed [of "data io"] by auto
    from Cons.prems False obtain msg' where m': "attempt (data (last ios)) = Inl msg'"
      using attempt_failed [of "data (last ios)"] by auto
    have "cells (polls e (io # ios) w) =
            cells (fetchDashboardData e (last ios) (fetchDashboardData e io w))"
      using Cons.IH [OF False] Cons.prems by simp
    also have "\<dots> = cells (fetchDashboardData e (last ios) w)"
    proof -
      have "isPolling (fetchDashboardData e io w) = isPolling w \<and>
            selectedUser (fetchDashboardData e io w) = selectedUser w \<and>
            currentAudio (fetchDashboardData e io w) = currentAudio w"
        using fetch_failed [OF m, of e w] by (simp add: cells_def)
      then show ?thesis
        by (simp add: fetch_failed [OF m'])
    qed
    finally show ?thesis using False by simp
  qed
qed

lemma shown_users_cells:
  "cells w = (Some p, r) \<Longrightarrow> shown_users w = (case users p of None \<Rightarrow> [] | Some us \<Rightarrow> us)"
  by (simp add: cells_def shown_users_def)

section \<open>The transport adapter on a failed dashboard request\<close>

text \<open>
  C10. When the request for the dashboard data fails (the network error, or a response whose
  status is not 2xx), \<^verbatim>\<open>getDashboardData\<close> does not throw: it returns the fallback payload
  with no users, both counts zero, \<^verbatim>\<open>connection_status\<close> \<^verbatim>\<open>error\<close> and
  \<^verbatim>\<open>last_updated\<close> the local clock. The caller \<^verbatim>\<open>fetchDashboardData\<close> then runs its
  success branch: it publishes that payload and leaves the error cell empty, so the failure
  shows only in the payload.
\<close>

theorem getDashboardData_never_throws:
  assumes "request_failed (data io)"
  shows "(case fst (getDashboardData e (data io) (data_clock io) w) of
            Inl err \<Rightarrow> False
          | Inr None \<Rightarrow> False
          | Inr (Some p) \<Rightarrow>
              users p = Some [] \<and> total_users p = Some 0 \<and> active_sessions_count p = Some 0 \<and>
              connection_status p = Some ''error'' \<and>
              last_updated p = Some (toISOString (data_clock io)) \<and>
              dashboardData (fetchDashboardData e io w) = Some p) \<and>
         error (fetchDashboardData e io w) = None \<and>
         connectionStatus (fetchDashboardData e io w) = ''error''"
proof -
  from assms obtain msg where m: "attempt (data io) = Inl msg"
    using attempt_failed [of "data io"] by auto
  have r: "fst (getDashboardData e (data io) (data_clock io) w) =
             Inr (Some (fallback msg (data_clock io)))"
    by (simp add: getDashboardData_def request_def request_settle_dashboard_failed [OF m])
  have c: "dashboardData (fetchDashboardData e io w) = Some (fallback msg (data_clock io)) \<and>
           error (fetchDashboardData e io w) = None \<and>
           connectionStatus (fetchDashboardData e io w) = ''error''"
    using fetch_failed [OF m, of e w] by (simp add: cells_def)
  show ?thesis
    by (simp add: r c) (simp add: fallback_def)
qed

theorem getDashboardData_never_throws_witness:
  "request_failed (data io_503) \<and>
   fst (getDashboardData env_local (data io_503) (data_clock io_503) initial) =
     Inr (Some (fallback ''HTTP error! status: 503'' date1)) \<and>
   error (fetchDashboardData env_local io_503 initial) = None"
proof -
  have h: "request_failed (data io_503)"
    by (simp add: request_failed_def io_503_def)
  have v: "fst (getDashboardData env_local (data io_503) (data_clock io_503) initial) =
     Inr (Some (fallback ''HTTP error! status: 503'' date1))"
    by (simp add: getDashboardData_def request_def request_settle_def io_503_def ok_def
          show_503)
  from getDashboardData_never_throws [OF h, of env_local initial] h v show ?thesis
    by simp
qed

section \<open>A failed poll\<close>

text \<open>
  C1, as stated, fails. After a poll that showed two devices, a poll whose requests are
  rejected by the network leaves the displayed device list empty.
\<close>

theorem failed_poll_blanks_devices:
  "shown_users (fetchDashboardData env_local (io_ok snapshot1) initial) = [dev1, dev2] \<and>
   shown_users
     (fetchDashboardData env_local io_down
        (fetchDashboardData env_local (io_ok snapshot1) initial)) = []"
proof -
  have ok: "attempt (data (io_ok snapshot1)) = Inr (Some snapshot1)"
    by (simp add: io_ok_def ok_def)
  have down: "attempt (data io_down) = Inl ''Failed to fetch''"
    by (simp add: io_down_def)
  have "shown_users (fetchDashboardData env_local (io_ok snapshot1) initial) = [dev1, dev2]"
    using shown_users_cells [OF fetch_ok [OF ok]] by (simp add: snapshot1_def no_fields_def)
  moreover have "shown_users
     (fetchDashboardData env_local io_down
        (fetchDashboardData env_local (io_ok snapshot1) initial)) = []"
    using shown_users_cells [OF fetch_failed [OF down]] by (simp add: fallback_def)
  ultimately show ?thesis by simp
qed

text \<open>
  C1, amended. For every poll whose data request fails (the network error, a status that is
  not 2xx, or a body that does not parse), the snapshot is replaced by the adapter's fallback
  payload: the displayed device list becomes empty, \<^verbatim>\<open>connectionStatus\<close> is
  \<^verbatim>\<open>error\<close>, and the error cell is empty.
\<close>

theorem failed_poll_publishes_fallback:
  assumes "request_failed (data io) \<or> malformed (data io)"
  shows "shown_users (fetchDashboardData e io w) = [] \<and>
         connectionStatus (fetchDashboardData e io w) = ''error'' \<and>
         error (fetchDashboardData e io w) = None \<and>
         (\<exists>msg. dashboardData (fetchDashboardData e io w) =
                  Some (fallback msg (data_clock io)))"
proof -
  from assms obtain msg where m: "attempt (data io) = Inl msg"
    using attempt_failed by blast
  have "shown_users (fetchDashboardData e io w) = []"
    using shown_users_cells [OF fetch_failed [OF m]] by (simp add: fallback_def)
  moreover have "dashboardData (fetchDashboardData e io w) = Some (fallback msg (data_clock io)) \<and>
           error (fetchDashboardData e io w) = None \<and>
           connectionStatus (fetchDashboardData e io w) = ''error''"
    using fetch_failed [OF m, of e w] by (simp add: cells_def)
  ultimately show ?thesis by blast
qed

theorem failed_poll_publishes_fallback_witness:
  "(request_failed (data io_down) \<or> malformed (data io_down)) \<and>
   shown_users (fetchDashboardData env_local io_down initial) = [] \<and>
   connectionStatus (fetchDashboardData env_local io_down initial) = ''error''"
proof -
  have h: "request_failed (data io_down) \<or> malformed (data io_down)"
    by (simp add: request_failed_def io_down_def)
  from failed_poll_publishes_fallback [OF h, of env_local initial] h show ?thesis
    by simp
qed

section \<open>Failures in a row, then a success\<close>

lemma polls_append: "polls e (xs @ ys) w = polls e ys (polls e xs w)"
  by (induction xs arbitrary: w) auto

lemma attempt_io_ok: "attempt (data (io_ok p)) = Inr (Some p)"
  by (simp add: io_ok_def ok_def)

text \<open>
  C3, as stated, fails. The component keeps no count of failures: after three failed polls
  its cells are what they are after one. And a successful poll sets \<^verbatim>\<open>connectionStatus\<close>
  to the \<^verbatim>\<open>connection_status\<close> of the payload when it carries one, here
  \<^verbatim>\<open>degraded\<close>, not to \<^verbatim>\<open>connected\<close>.
\<close>

theorem retry_count_not_kept:
  "cells (polls env_local [io_down, io_down, io_down] initial) =
     cells (polls env_local [io_down] initial) \<and>
   connectionStatus (polls env_local [io_down, io_down, io_down, io_ok snapshot2] initial) =
     ''degraded''"
proof -
  have f: "\<forall>io \<in> set [io_down, io_down, io_down]. request_failed (data io) \<or> malformed (data io)"
    by (simp add: request_failed_def io_down_def)
  have "cells (polls env_local [io_down, io_down, io_down] initial) =
          cells (fetchDashboardData env_local io_down initial)"
    using polls_failed [OF _ f, of env_local initial] by simp
  then have a: "cells (polls env_local [io_down, io_down, io_down] initial) =
     cells (polls env_local [io_down] initial)"
    by simp
  have "cells (polls env_local ([io_down, io_down, io_down] @ [io_ok snapshot2]) initial) =
     (Some snapshot2, False, None, isPolling (polls env_local [io_down, io_down, io_down] initial),
      Some (receipt_clock (io_ok snapshot2)),
      or_else (connection_status snapshot2) ''connected'',
      selectedUser (polls env_local [io_down, io_down, io_down] initial),
      currentAudio (polls env_local [io_down, io_down, io_down] initial))"
    unfolding polls_append using fetch_ok [OF attempt_io_ok] by simp
  then have b: "connectionStatus
      (polls env_local [io_down, io_down, io_down, io_ok snapshot2] initial) = ''degraded''"
    by (simp add: cells_def snapshot2_def no_fields_def or_else_def)
  from a b show ?thesis by simp
qed

text \<open>
  C3, amended. Given one or more failed polls in a row followed by a successful one: no retry
  count is kept (the cells after the failures are those after the last failure alone);
  after the failures \<^verbatim>\<open>connectionStatus\<close> is \<^verbatim>\<open>error\<close>, the error cell is empty
  and no device is shown; the success, in one update, publishes the new snapshot, sets
  \<^verbatim>\<open>connectionStatus\<close> to the payload's \<^verbatim>\<open>connection_status\<close> when that is present
  and not empty and to \<^verbatim>\<open>connected\<close> otherwise, and leaves the error cell empty.
\<close>

theorem failures_then_success:
  assumes "ios \<noteq> []"
    and "\<forall>io \<in> set ios. request_failed (data io)"
    and "data io' = Responded st (Inr (Some p))"
    and "200 \<le> st" and "st \<le> 299"
  shows "cells (polls e ios w) = cells (fetchDashboardData e (last ios) w) \<and>
         connectionStatus (polls e ios w) = ''error'' \<and>
         error (polls e ios w) = None \<and>
         shown_users (polls e ios w) = [] \<and>
         cells (polls e (ios @ [io']) w) =
           (Some p, False, None, isPolling w, Some (receipt_clock io'),
            or_else (connection_status p) ''connected'', selectedUser w, currentAudio w)"
proof -
  from assms(2) have f: "\<forall>io \<in> set ios. request_failed (data io) \<or> malformed (data io)"
    by simp
  have c: "cells (polls e ios w) = cells (fetchDashboardData e (last ios) w)"
    by (rule polls_failed [OF assms(1) f])
  from assms(1,2) have "request_failed (data (last ios)) \<or> malformed (data (last ios))"
    by simp
  then obtain msg where m: "attempt (data (last ios)) = Inl msg"
    using attempt_failed by blast
  have l: "cells (polls e ios w) =
     (Some (fallback msg (data_clock (last ios))), False, None, isPolling w,
      Some (receipt_clock (last ios)), ''error'', selectedUser w, currentAudio w)"
    using c fetch_failed [OF m, of e w] by simp
  have s: "shown_users (polls e ios w) = []"
    using shown_users_cells [OF l] by (simp add: fallback_def)
  from assms(3-5) have ok: "attempt (data io') = Inr (Some p)"
    by (simp add: ok_def)
  have "cells (polls e (ios @ [io']) w) =
     (Some p, False, None, isPolling (polls e ios w), Some (receipt_clock io'),
      or_else (connection_status p) ''connected'', selectedUser (polls e ios w),
      currentAudio (polls e ios w))"
    unfolding polls_append using fetch_ok [OF ok] by simp
  moreover from l have "isPolling (polls e ios w) = isPolling w \<and>
      selectedUser (polls e ios w) = selectedUser w \<and>
      currentAudio (polls e ios w) = currentAudio w \<and>
      connectionStatus (polls e ios w) = ''error'' \<and> error (polls e ios w) = None"
    by (simp add: cells_def)
  ultimately show ?thesis using c s by simp
qed

theorem failures_then_success_witness:
  "[io_down, io_503, io_down] \<noteq> [] \<and>
   request_failed (data io_down) \<and> request_failed (data io_503) \<and>
   data (io_ok snapshot1) = Responded 200 (Inr (Some snapshot1)) \<and>
   connectionStatus (polls env_local [io_down, io_503, io_down] initial) = ''error'' \<and>
   cells (polls env_local ([io_down, io_503, io_down] @ [io_ok snapshot1]) initial) =
     (Some snapshot1, False, None, True, Some date2, ''connected'', None, None)"
proof -
  have h1: "[io_down, io_503, io_down] \<noteq> []" by simp
  have d: "request_failed (data io_down)" by (simp add: request_failed_def io_down_def)
  have d': "request_failed (data io_503)" by (simp add: request_failed_def io_503_def)
  from d d' have h2: "\<forall>io \<in> set [io_down, io_503, io_down]. request_failed (data io)"
    by simp
  have h3: "data (io_ok snapshot1) = Responded 200 (Inr (Some snapshot1))"
    by (simp add: io_ok_def)
  have c: "or_else (connection_status snapshot1) ''connected'' = ''connected''"
    by (simp add: snapshot1_def no_fields_def or_else_def)
  have i: "isPolling initial \<and> selectedUser initial = None \<and> currentAudio initial = None \<and>
     receipt_clock (io_ok snapshot1) = date2"
    by (simp add: initial_def io_ok_def)
  from failures_then_success [OF h1 h2 h3, of env_local initial] d d' h3 c i
  show ?thesis by simp
qed

section \<open>Timer ticks while a fetch is pending\<close>

lemma poll_begin_inflight: "inflight (poll_begin e w) = inflight w @ [AwaitHealth]"
  by (simp add: poll_begin_def)

lemma poll_begin_pollInterval: "pollInterval (poll_begin e w) = pollInterval w"
  by (simp add: poll_begin_def request_send_def)

text \<open>
  C2, as stated, fails. After mounting, one poll is in progress; the first tick of the timer
  starts a second one while the first is still waiting: two health requests have been handed
  to \<^verbatim>\<open>fetch\<close> and none has settled.
\<close>

theorem tick_starts_second_fetch:
  "inflight (mounted env_local) = [AwaitHealth] \<and>
   inflight (step env_local Tick (mounted env_local)) = [AwaitHealth, AwaitHealth] \<and>
   network (step env_local Tick (mounted env_local)) =
     [\<lparr> req_method = ''GET'', req_url = ''http://localhost:5000/api/health'' \<rparr>,
      \<lparr> req_method = ''GET'', req_url = ''http://localhost:5000/api/health'' \<rparr>]"
  by (simp add: mounted_def effect_run_def initial_def poll_begin_def request_send_def
        baseURL_def API_BASE_URL_def getApiUrl_def or_else_def env_local_def)

text \<open>
  C2, amended. While the interval timer is set, every tick starts a fetch, whether or not
  earlier ones are still pending: after \<open>k\<close> ticks with no completion in between, \<open>k\<close>
  more fetches are in flight. No tick is skipped and none is queued.
\<close>

theorem ticks_start_fetches:
  assumes "pollInterval w"
  shows "inflight (run e (replicate k Tick) w) = inflight w @ replicate k AwaitHealth \<and>
         length (inflight (run e (replicate k Tick) w)) = length (inflight w) + k"
proof -
  have "pollInterval w \<Longrightarrow>
        inflight (run e (replicate k Tick) w) = inflight w @ replicate k AwaitHealth"
  proof (induction k arbitrary: w)
    case 0
    then show ?case by simp
  next
    case (Suc k)
    have "pollInterval (poll_begin e w)"
      using Suc.prems by (simp add: poll_begin_pollInterval)
    then have "inflight (run e (replicate k Tick) (poll_begin e w)) =
                 inflight (poll_begin e w) @ replicate k AwaitHealth"
      by (rule Suc.IH)
    then show ?case
      using Suc.prems by (simp add: poll_begin_inflight replicate_app_Cons_same)
  qed
  with assms show ?thesis by simp
qed

theorem ticks_start_fetches_witness:
  "pollInterval (mounted env_local) \<and>
   length (inflight (run env_local (replicate 3 Tick) (mounted env_local))) = 4"
proof -
  have h: "pollInterval (mounted env_local)"
    by (simp add: mounted_def effect_run_def initial_def)
  have l: "length (inflight (mounted env_local)) = 1"
    by (simp add: mounted_def effect_run_def initial_def poll_begin_def)
  from ticks_start_fetches [OF h, of env_local 3] h l show ?thesis
    by simp
qed

section \<open>Start and stop listening\<close>

lemma start_endpoint: "''/api/start-listening/'' @ userId \<noteq> ''/api/dashboard-data''"
  by simp

lemma stop_endpoint: "''/api/stop-listening/'' @ userId \<noteq> ''/api/dashboard-data''"
  by simp

lemma request_failed_other:
  assumes "attempt res = Inl msg" and "endpoint \<noteq> ''/api/dashboard-data''"
  shows "request e method endpoint res now w =
     (Inl msg,
      w\<lparr> network := network w @ [\<lparr> req_method = method, req_url = baseURL e @ endpoint \<rparr>],
         console := console w @
           [ConsoleError (''API request failed for '' @ endpoint @ '':'') msg] \<rparr>)"
  by (simp add: request_def request_settle_other_failed [OF assms] request_send_def)

lemma request_ok:
  assumes "attempt res = Inr v"
  shows "request e method endpoint res now w = (Inr v, request_send e method endpoint w)"
  by (simp add: request_def request_settle_ok [OF assms])

lemma network_request_settle: "network (snd (request_settle endpoint res now w)) = network w"
  by (simp add: request_settle_def Let_def split: sum.splits)

lemma network_fetch_settled: "network (fetch_settled r now w) = network w"
  by (simp add: fetch_settled_def fetch_catch_def Let_def split: sum.splits option.splits)

lemma network_health_warn: "network (health_warn h w) = network w"
  by (simp add: health_warn_def split: sum.splits)

lemma network_fetchDashboardData:
  "network (fetchDashboardData e io w) =
     network w @ [\<lparr> req_method = ''GET'', req_url = baseURL e @ ''/api/health'' \<rparr>,
                  \<lparr> req_method = ''GET'', req_url = baseURL e @ ''/api/dashboard-data'' \<rparr>]"
proof -
  have "network (poll_health e (health io) (health_clock io)
                   (request_send e ''GET'' ''/api/health'' w)) =
        network w @ [\<lparr> req_method = ''GET'', req_url = baseURL e @ ''/api/health'' \<rparr>,
                  \<lparr> req_method = ''GET'', req_url = baseURL e @ ''/api/dashboard-data'' \<rparr>]"
    by (simp add: poll_health_def split_beta request_send_def network_health_warn
          network_request_settle)
  moreover have "network (poll_data r n n' v) = network v" for r n n' v
    by (simp add: poll_data_def split_beta network_fetch_settled network_request_settle)
  ultimately show ?thesis
    by (simp add: fetchDashboardData_phases)
qed

lemma polls_issued_fetchDashboardData:
  "polls_issued e (fetchDashboardData e io w) = Suc (polls_issued e w)"
  by (simp add: polls_issued_def network_fetchDashboardData)

lemma polls_issued_send:
  "endpoint \<noteq> ''/api/dashboard-data'' \<Longrightarrow>
   polls_issued e (request_send e method endpoint w) = polls_issued e w"
  by (simp add: polls_issued_def request_send_def)


lemma start_failed:
  assumes "attempt res = Inl msg"
  shows "handleStartListening e userId res now io w =
     w\<lparr> network := network w @
            [\<lparr> req_method = ''POST'',
               req_url = baseURL e @ ''/api/start-listening/'' @ userId \<rparr>],
        console := console w @
            [ConsoleError (''API request failed for /api/start-listening/'' @ userId @ '':'') msg,
             ConsoleError ''Failed to start listening:'' msg] \<rparr>"
  unfolding handleStartListening_def startListening_def
    request_failed_other [OF assms start_endpoint]
  by simp

lemma stop_failed:
  assumes "attempt res = Inl msg"
  shows "handleStopListening e userId res now io w =
     w\<lparr> network := network w @
            [\<lparr> req_method = ''POST'',
               req_url = baseURL e @ ''/api/stop-listening/'' @ userId \<rparr>],
        console := console w @
            [ConsoleError (''API request failed for /api/stop-listening/'' @ userId @ '':'') msg,
             ConsoleError ''Failed to stop listening:'' msg] \<rparr>"
  unfolding handleStopListening_def stopListening_def
    request_failed_other [OF assms stop_endpoint]
  by simp

lemma start_ok:
  assumes "attempt res = Inr v"
  shows "handleStartListening e userId res now io w =
     fetchDashboardData e io (request_send e ''POST'' (''/api/start-listening/'' @ userId) w)"
  unfolding handleStartListening_def startListening_def request_ok [OF assms]
  by simp

lemma stop_ok:
  assumes "attempt res = Inr v"
  shows "handleStopListening e userId res now io w =
     fetchDashboardData e io (request_send e ''POST'' (''/api/stop-listening/'' @ userId) w)"
  unfolding handleStopListening_def stopListening_def request_ok [OF assms]
  by simp

text \<open>
  C5, as stated, fails. With two devices shown, a start command is rejected by the network
  and a stop command is answered with status 500. Neither failure is surfaced: every cell
  that a render reads is as it was, the error cell is still empty and the connection is still
  shown as \<^verbatim>\<open>connected\<close>.
\<close>

theorem command_failure_not_surfaced:
  "cells (fetchDashboardData env_local (io_ok snapshot1) initial) =
     (Some snapshot1, False, None, True, Some date2, ''connected'', None, None) \<and>
   cells (handleStartListening env_local ''dev2'' (Rejected ''Failed to fetch'') date1
            (io_ok snapshot1) (fetchDashboardData env_local (io_ok snapshot1) initial)) =
     (Some snapshot1, False, None, True, Some date2, ''connected'', None, None) \<and>
   cells (handleStopListening env_local ''dev2'' (Responded 500 (Inr None)) date1
            (io_ok snapshot1) (fetchDashboardData env_local (io_ok snapshot1) initial)) =
     (Some snapshot1, False, None, True, Some date2, ''connected'', None, None)"
proof -
  let ?w = "fetchDashboardData env_local (io_ok snapshot1) initial"
  have w: "cells ?w = (Some snapshot1, False, None, True, Some date2, ''connected'', None, None)"
    using fetch_ok [OF attempt_io_ok, of env_local snapshot1 initial]
    by (simp add: snapshot1_def no_fields_def or_else_def io_ok_def initial_def)
  have r: "attempt (Rejected ''Failed to fetch'') = Inl ''Failed to fetch''"
    by simp
  have h: "attempt (Responded 500 (Inr None)) = Inl (''HTTP error! status: '' @ show_nat 500)"
    by (simp add: ok_def)
  have "cells (handleStartListening env_local ''dev2'' (Rejected ''Failed to fetch'') date1
            (io_ok snapshot1) ?w) = cells ?w"
    by (simp add: start_failed [OF r] cells_def)
  moreover have "cells (handleStopListening env_local ''dev2'' (Responded 500 (Inr None)) date1
            (io_ok snapshot1) ?w) = cells ?w"
    by (simp add: stop_failed [OF h] cells_def)
  ultimately show ?thesis using w by simp
qed

text \<open>
  C5, amended. For every \<open>userId\<close>, \<^verbatim>\<open>handleStartListening\<close> and
  \<^verbatim>\<open>handleStopListening\<close> send the POST request of the adapter call. When that call
  fails (the network error, a status that is not 2xx, or a body that does not parse), the
  error is written to the console and nowhere else: the cells, which are all that a render
  reads, are left as they were, so the snapshot is not changed and nothing is shown to the
  operator, and no request for the dashboard data is sent. When it succeeds, the handler
  goes on with one run of \<^verbatim>\<open>fetchDashboardData\<close>, which sends exactly one request for
  the dashboard data.
\<close>

theorem listening_commands:
  "(request_failed res \<or> malformed res \<longrightarrow>
      (\<exists>msg. attempt res = Inl msg \<and>
         handleStartListening e userId res now io w =
           w\<lparr> network := network w @
                  [\<lparr> req_method = ''POST'',
                     req_url = baseURL e @ ''/api/start-listening/'' @ userId \<rparr>],
              console := console w @
                  [ConsoleError
                     (''API request failed for /api/start-listening/'' @ userId @ '':'') msg,
                   ConsoleError ''Failed to start listening:'' msg] \<rparr> \<and>
         handleStopListening e userId res now io w =
           w\<lparr> network := network w @
                  [\<lparr> req_method = ''POST'',
                     req_url = baseURL e @ ''/api/stop-listening/'' @ userId \<rparr>],
              console := console w @
                  [ConsoleError
                     (''API request failed for /api/stop-listening/'' @ userId @ '':'') msg,
                   ConsoleError ''Failed to stop listening:'' msg] \<rparr>) \<and>
      cells (handleStartListening e userId res now io w) = cells w \<and>
      cells (handleStopListening e userId res now io w) = cells w \<and>
      polls_issued e (handleStartListening e userId res now io w) = polls_issued e w \<and>
      polls_issued e (handleStopListening e userId res now io w) = polls_issued e w) \<and>
   (\<not> (request_failed res \<or> malformed res) \<longrightarrow>
      handleStartListening e userId res now io w =
        fetchDashboardData e io
          (request_send e ''POST'' (''/api/start-listening/'' @ userId) w) \<and>
      handleStopListening e userId res now io w =
        fetchDashboardData e io
          (request_send e ''POST'' (''/api/stop-listening/'' @ userId) w) \<and>
      polls_issued e (handleStartListening e userId res now io w) = Suc (polls_issued e w) \<and>
      polls_issued e (handleStopListening e userId res now io w) = Suc (polls_issued e w))"
proof (intro conjI impI)
  assume "request_failed res \<or> malformed res"
  then obtain msg where m: "attempt res = Inl msg"
    using attempt_failed by blast
  show "\<exists>msg. attempt res = Inl msg \<and>
         handleStartListening e userId res now io w =
           w\<lparr> network := network w @
                  [\<lparr> req_method = ''POST'',
                     req_url = baseURL e @ ''/api/start-listening/'' @ userId \<rparr>],
              console := console w @
                  [ConsoleError
                     (''API request failed for /api/start-listening/'' @ userId @ '':'') msg,
                   ConsoleError ''Failed to start listening:'' msg] \<rparr> \<and>
         handleStopListening e userId res now io w =
           w\<lparr> network := network w @
                  [\<lparr> req_method = ''POST'',
                     req_url = baseURL e @ ''/api/stop-listening/'' @ userId \<rparr>],
              console := console w @
                  [ConsoleError
                     (''API request failed for /api/stop-listening/'' @ userId @ '':'') msg,
                   ConsoleError ''Failed to stop listening:'' msg] \<rparr>"
    using m start_failed [OF m] stop_failed [OF m] by blast
  show "cells (handleStartListening e userId res now io w) = cells w"
    by (simp add: start_failed [OF m] cells_def)
  show "cells (handleStopListening e userId res now io w) = cells w"
    by (simp add: stop_failed [OF m] cells_def)
  show "polls_issued e (handleStartListening e userId res now io w) = polls_issued e w"
    by (simp add: start_failed [OF m] polls_issued_def)
  show "polls_issued e (handleStopListening e userId res now io w) = polls_issued e w"
    by (simp add: stop_failed [OF m] polls_issued_def)
next
  assume "\<not> (request_failed res \<or> malformed res)"
  then obtain v where v: "attempt res = Inr v"
    using attempt_succeeded by blast
  show "handleStartListening e userId res now io w =
        fetchDashboardData e io
          (request_send e ''POST'' (''/api/start-listening/'' @ userId) w)"
    by (rule start_ok [OF v])
  show "handleStopListening e userId res now io w =
        fetchDashboardData e io
          (request_send e ''POST'' (''/api/stop-listening/'' @ userId) w)"
    by (rule stop_ok [OF v])
  show "polls_issued e (handleStartListening e userId res now io w) = Suc (polls_issued e w)"
    unfolding start_ok [OF v] polls_issued_fetchDashboardData
      polls_issued_send [OF start_endpoint]
    by simp
  show "polls_issued e (handleStopListening e userId res now io w) = Suc (polls_issued e w)"
    unfolding stop_ok [OF v] polls_issued_fetchDashboardData
      polls_issued_send [OF stop_endpoint]
    by simp
qed

theorem listening_commands_witness:
  "request_failed (Responded 500 (Inr None)) \<and>
   cells (handleStartListening env_local ''dev2'' (Responded 500 (Inr None)) date1 io_down
            initial) = cells initial \<and>
   polls_issued env_local
     (handleStopListening env_local ''dev2'' (Responded 500 (Inr None)) date1 io_down initial)
     = 0 \<and>
   \<not> request_failed (Responded 200 (Inr (Some no_fields))) \<and>
   \<not> malformed (Responded 200 (Inr (Some no_fields))) \<and>
   polls_issued env_local
     (handleStartListening env_local ''dev2'' (Responded 200 (Inr (Some no_fields))) date1
        (io_ok snapshot1) initial) = 1"
proof -
  have f: "request_failed (Responded 500 (Inr None))"
    by (simp add: request_failed_def)
  have s: "\<not> (request_failed (Responded 200 (Inr (Some no_fields))) \<or>
              malformed (Responded 200 (Inr (Some no_fields))))"
    by (simp add: request_failed_def malformed_def)
  have z: "polls_issued env_local initial = 0"
    by (simp add: polls_issued_def initial_def)
  have a: "cells (handleStartListening env_local ''dev2'' (Responded 500 (Inr None)) date1
                   io_down initial) = cells initial \<and>
           polls_issued env_local
             (handleStopListening env_local ''dev2'' (Responded 500 (Inr None)) date1 io_down
                initial) = polls_issued env_local initial"
    using listening_commands [of "Responded 500 (Inr None)" env_local "''dev2''" date1 io_down
      initial] f
    by blast
  have b: "polls_issued env_local
             (handleStartListening env_local ''dev2'' (Responded 200 (Inr (Some no_fields)))
                date1 (io_ok snapshot1) initial) = Suc (polls_issued env_local initial)"
    using listening_commands [of "Responded 200 (Inr (Some no_fields))" env_local "''dev2''"
      date1 "io_ok snapshot1" initial] s
    by blast
  from a b f s z
  show ?thesis by simp
qed

section \<open>A fetch in flight when polling is paused\<close>

lemma mounted_local:
  "mounted env_local =
     initial\<lparr> network := [\<lparr> req_method = ''GET'', req_url = ''http://localhost:5000/api/health'' \<rparr>],
              inflight := [AwaitHealth], pollInterval := True \<rparr>"
  by (simp add: mounted_def effect_run_def initial_def poll_begin_def request_send_def
        baseURL_def API_BASE_URL_def getApiUrl_def or_else_def env_local_def)

lemma baseURL_local: "baseURL env_local = ''http://localhost:5000''"
  by (simp add: baseURL_def API_BASE_URL_def getApiUrl_def or_else_def env_local_def)

lemma toggle_stop:
  "isPolling w \<Longrightarrow> \<not> (loading w \<and> dashboardData w = None) \<Longrightarrow>
   step e Toggle w = w\<lparr> isPolling := False, pollInterval := False \<rparr>"
  by (auto simp: togglePolling_def effect_cleanup_def effect_run_def)

lemma request_settle_flags:
  "request_settle ep res now (w\<lparr> isPolling := a, pollInterval := b \<rparr>) =
     (fst (request_settle ep res now w),
      (snd (request_settle ep res now w))\<lparr> isPolling := a, pollInterval := b \<rparr>)"
  by (simp add: request_settle_def Let_def split: sum.splits)

lemma health_warn_flags:
  "health_warn h (w\<lparr> isPolling := a, pollInterval := b \<rparr>) =
     (health_warn h w)\<lparr> isPolling := a, pollInterval := b \<rparr>"
  by (simp add: health_warn_def split: sum.splits)

lemma request_send_flags:
  "request_send e m ep (w\<lparr> isPolling := a, pollInterval := b \<rparr>) =
     (request_send e m ep w)\<lparr> isPolling := a, pollInterval := b \<rparr>"
  by (simp add: request_send_def)

lemma fetch_settled_flags:
  "fetch_settled r now (w\<lparr> isPolling := a, pollInterval := b \<rparr>) =
     (fetch_settled r now w)\<lparr> isPolling := a, pollInterval := b \<rparr>"
  by (simp add: fetch_settled_def fetch_catch_def Let_def split: sum.splits option.splits)

lemma poll_health_flags:
  "poll_health e res now (w\<lparr> isPolling := a, pollInterval := b \<rparr>) =
     (poll_health e res now w)\<lparr> isPolling := a, pollInterval := b \<rparr>"
  by (simp add: poll_health_def request_settle_flags health_warn_flags request_send_flags
        split_beta)

lemma poll_data_flags:
  "poll_data res now recv (w\<lparr> isPolling := a, pollInterval := b \<rparr>) =
     (poll_data res now recv w)\<lparr> isPolling := a, pollInterval := b \<rparr>"
  by (simp add: poll_data_def request_settle_flags fetch_settled_flags split_beta)

lemma step_health_flags:
  "step e (HealthSettled i res now) (w\<lparr> isPolling := a, pollInterval := b \<rparr>) =
     (step e (HealthSettled i res now) w)\<lparr> isPolling := a, pollInterval := b \<rparr>"
  by (simp add: poll_health_flags)

lemma step_data_flags:
  "step e (DataSettled i res now recv) (w\<lparr> isPolling := a, pollInterval := b \<rparr>) =
     (step e (DataSettled i res now recv) w)\<lparr> isPolling := a, pollInterval := b \<rparr>"
  by (simp add: poll_data_flags)

lemma dashboardData_poll_data:
  "dashboardData (poll_data res now recv w) =
     (case attempt res of Inl msg \<Rightarrow> Some (fallback msg now) | Inr d \<Rightarrow> d)"
proof (cases "attempt res")
  case (Inl msg)
  then show ?thesis
    using poll_data_failed [OF Inl, of now recv w] by (simp add: cells_def)
next
  case (Inr d)
  show ?thesis
  proof (cases d)
    case None
    then show ?thesis
      using Inr poll_data_null [of res now recv w] by (simp add: cells_def)
  next
    case (Some p)
    then show ?thesis
      using Inr poll_data_ok [of res p now recv w] by (simp add: cells_def)
  qed
qed

lemma network_poll_health:
  "network (poll_health e res now w) =
     network w @ [\<lparr> req_method = ''GET'', req_url = baseURL e @ ''/api/dashboard-data'' \<rparr>]"
  by (simp add: poll_health_def split_beta request_send_def network_health_warn
        network_request_settle)

lemma second_poll_state:
  "second_poll =
     \<lparr> dashboardData = Some snapshot1, loading = False, error = None, isPolling = True,
       lastUpdated = Some date2, connectionStatus = ''connected'', selectedUser = None,
       currentAudio = None, console = [],
       network =
         [\<lparr> req_method = ''GET'', req_url = ''http://localhost:5000/api/health'' \<rparr>,
          \<lparr> req_method = ''GET'', req_url = ''http://localhost:5000/api/dashboard-data'' \<rparr>,
          \<lparr> req_method = ''GET'', req_url = ''http://localhost:5000/api/health'' \<rparr>],
       pollInterval = True, inflight = [AwaitHealth] \<rparr>"
  by (simp add: second_poll_def mounted_local initial_def ok_health_def poll_health_def
        request_settle_def ok_def health_warn_def request_send_def poll_data_def
        fetch_settled_def poll_begin_def snapshot1_def no_fields_def or_else_def
        baseURL_local)

text \<open>
  C4, as stated, fails. The first poll has shown its snapshot and the timer has started a
  second poll. The operator pauses polling while that poll waits for its data request, or
  already while it waits for its health probe. In both cases the poll runs on, and when its
  data request settles the new snapshot is published and the cells are updated, although
  polling is off.
\<close>

theorem stale_result_published:
  "cells (run env_local [HealthSettled 0 ok_health date1, Toggle] second_poll) =
     (Some snapshot1, False, None, False, Some date2, ''connected'', None, None) \<and>
   cells (run env_local
            [HealthSettled 0 ok_health date1, Toggle,
             DataSettled 0 (Responded 200 (Inr (Some snapshot2))) date2 date3]
            second_poll) =
     (Some snapshot2, False, None, False, Some date3, ''degraded'', None, None) \<and>
   cells (run env_local
            [Toggle, HealthSettled 0 ok_health date1,
             DataSettled 0 (Responded 200 (Inr (Some snapshot2))) date2 date3]
            second_poll) =
     (Some snapshot2, False, None, False, Some date3, ''degraded'', None, None)"
  by (simp add: second_poll_state ok_health_def poll_health_def request_settle_def ok_def
        health_warn_def request_send_def togglePolling_def effect_cleanup_def effect_run_def
        poll_data_def fetch_settled_def cells_def snapshot2_def no_fields_def or_else_def)

text \<open>
  C4, amended. Pausing clears the interval timer, so no later tick starts a fetch, and leaves
  the polls in progress as they are. A fetch in flight at that moment, at its health probe or
  at its data request, is not discarded: each of its steps does to the state exactly what it
  would have done with polling still on. A poll at its health probe goes on to send its data
  request, and when the data request of a poll settles, the snapshot is overwritten by what
  the adapter returned.
\<close>

theorem stop_does_not_discard:
  assumes "isPolling w" and "\<not> (loading w \<and> dashboardData w = None)"
  shows "\<not> isPolling (step e Toggle w) \<and> \<not> pollInterval (step e Toggle w) \<and>
         step e Tick (step e Toggle w) = step e Toggle w \<and>
         inflight (step e Toggle w) = inflight w \<and>
         step e (HealthSettled i res now) (step e Toggle w) =
           (step e (HealthSettled i res now) w)\<lparr> isPolling := False, pollInterval := False \<rparr> \<and>
         step e (DataSettled i res now recv) (step e Toggle w) =
           (step e (DataSettled i res now recv) w)\<lparr> isPolling := False, pollInterval := False \<rparr> \<and>
         (i < length (inflight w) \<and> inflight w ! i = AwaitHealth \<longrightarrow>
            inflight (step e (HealthSettled i res now) (step e Toggle w)) =
              (inflight w)[i := AwaitData] \<and>
            network (step e (HealthSettled i res now) (step e Toggle w)) =
              network w @
                [\<lparr> req_method = ''GET'', req_url = baseURL e @ ''/api/dashboard-data'' \<rparr>]) \<and>
         (i < length (inflight w) \<and> inflight w ! i = AwaitData \<longrightarrow>
            inflight (step e (DataSettled i res now recv) (step e Toggle w)) =
              take i (inflight w) @ drop (Suc i) (inflight w) \<and>
            dashboardData (step e (DataSettled i res now recv) (step e Toggle w)) =
              (case attempt res of Inl msg \<Rightarrow> Some (fallback msg now) | Inr d \<Rightarrow> d))"
proof -
  let ?s = "w\<lparr> isPolling := False, pollInterval := False \<rparr>"
  have t: "step e Toggle w = ?s"
    using assms by (rule toggle_stop)
  have a: "\<not> isPolling ?s \<and> \<not> pollInterval ?s \<and> step e Tick ?s = ?s \<and> inflight ?s = inflight w"
    by simp
  have h: "step e (HealthSettled i res now) ?s =
           (step e (HealthSettled i res now) w)\<lparr> isPolling := False, pollInterval := False \<rparr>"
    by (rule step_health_flags)
  have d: "step e (DataSettled i res now recv) ?s =
           (step e (DataSettled i res now recv) w)\<lparr> isPolling := False, pollInterval := False \<rparr>"
    by (rule step_data_flags)
  have hs: "inflight (step e (HealthSettled i res now) ?s) = (inflight w)[i := AwaitData] \<and>
            network (step e (HealthSettled i res now) ?s) =
              network w @
                [\<lparr> req_method = ''GET'', req_url = baseURL e @ ''/api/dashboard-data'' \<rparr>]"
    if "i < length (inflight w) \<and> inflight w ! i = AwaitHealth"
    unfolding h using that by (simp add: network_poll_health)
  have ds: "inflight (step e (DataSettled i res now recv) ?s) =
              take i (inflight w) @ drop (Suc i) (inflight w) \<and>
            dashboardData (step e (DataSettled i res now recv) ?s) =
              (case attempt res of Inl msg \<Rightarrow> Some (fallback msg now) | Inr d \<Rightarrow> d)"
    if "i < length (inflight w) \<and> inflight w ! i = AwaitData"
    unfolding d using that by (simp add: dashboardData_poll_data)
  from a h d hs ds show ?thesis
    unfolding t by blast
qed

theorem stop_does_not_discard_witness:
  "isPolling second_poll \<and> \<not> loading second_poll \<and>
   inflight second_poll = [AwaitHealth] \<and>
   inflight (step env_local (HealthSettled 0 ok_health date1)
              (step env_local Toggle second_poll)) = [AwaitData] \<and>
   isPolling (step env_local (HealthSettled 0 ok_health date1) second_poll) \<and>
   \<not> loading (step env_local (HealthSettled 0 ok_health date1) second_poll) \<and>
   inflight (step env_local (HealthSettled 0 ok_health date1) second_poll) = [AwaitData] \<and>
   dashboardData
     (step env_local (DataSettled 0 (Responded 200 (Inr (Some snapshot2))) date2 date3)
        (step env_local Toggle
           (step env_local (HealthSettled 0 ok_health date1) second_poll))) = Some snapshot2"
proof -
  let ?w = "second_poll"
  let ?v = "step env_local (HealthSettled 0 ok_health date1) second_poll"
  have w: "isPolling ?w \<and> \<not> loading ?w \<and> inflight ?w = [AwaitHealth]"
    by (simp add: second_poll_state)
  have v: "isPolling ?v \<and> \<not> loading ?v \<and> inflight ?v = [AwaitData]"
    by (simp add: second_poll_state ok_health_def poll_health_def request_settle_def ok_def
          health_warn_def request_send_def)
  from w have w1: "isPolling ?w" and w2: "\<not> (loading ?w \<and> dashboardData ?w = None)"
    and w3: "0 < length (inflight ?w) \<and> inflight ?w ! 0 = AwaitHealth"
    by simp_all
  from v have v1: "isPolling ?v" and v2: "\<not> (loading ?v \<and> dashboardData ?v = None)"
    and v3: "0 < length (inflight ?v) \<and> inflight ?v ! 0 = AwaitData"
    by simp_all
  have a: "inflight (step env_local (HealthSettled 0 ok_health date1)
              (step env_local Toggle ?w)) = (inflight ?w)[0 := AwaitData]"
    using stop_does_not_discard [OF w1 w2, of env_local 0 ok_health date1 date1] w3
    by blast
  have b: "dashboardData
     (step env_local (DataSettled 0 (Responded 200 (Inr (Some snapshot2))) date2 date3)
        (step env_local Toggle ?v)) =
     (case attempt (Responded 200 (Inr (Some snapshot2))) of
        Inl msg \<Rightarrow> Some (fallback msg date2) | Inr d \<Rightarrow> d)"
    using stop_does_not_discard [OF v1 v2, of env_local 0
        "Responded 200 (Inr (Some snapshot2))" date2 date3] v3
    by blast
  from a b w v show ?thesis
    by (simp add: ok_def del: step.simps)
qed

section \<open>The filtered device list\<close>

lemma of_char_lower_char:
  "(of_char (lower_char c) :: nat) =
     (if capital c then of_char c + 32 else of_char c)"
  by (auto simp: lower_char_def capital_def Let_def)

lemma capital_lower_char: "\<not> capital (lower_char c)"
proof -
  have "(of_char (lower_char c) :: nat) = (if capital c then of_char c + 32 else of_char c)"
    by (rule of_char_lower_char)
  then show ?thesis
    unfolding capital_def [of "lower_char c"] Let_def
    by (auto simp: capital_def Let_def)
qed




text \<open>
  The recursive definitions of the specification's side say what is meant: the term agrees,
  ignoring case, with a run of consecutive characters of the text.
\<close>

lemma begins_ignoring_case_iff:
  "begins_ignoring_case t s \<longleftrightarrow>
     (\<exists>mid post. s = mid @ post \<and> list_all2 same_ignoring_case t mid)"
proof (induction t s rule: begins_ignoring_case.induct)
  case (1 s)
  then show ?case by simp
next
  case (2 c t)
  then show ?case by simp
next
  case (3 c t d s)
  show ?case
  proof
    assume "begins_ignoring_case (c # t) (d # s)"
    then obtain mid post where "same_ignoring_case c d" "s = mid @ post"
        "list_all2 same_ignoring_case t mid"
      using 3 by auto
    then have "d # s = (d # mid) @ post \<and> list_all2 same_ignoring_case (c # t) (d # mid)"
      by simp
    then show "\<exists>mid post. d # s = mid @ post \<and> list_all2 same_ignoring_case (c # t) mid"
      by blast
  next
    assume "\<exists>mid post. d # s = mid @ post \<and> list_all2 same_ignoring_case (c # t) mid"
    then obtain mid post where m: "d # s = mid @ post" "list_all2 same_ignoring_case (c # t) mid"
      by blast
    then obtain d' mid' where "mid = d' # mid'" "same_ignoring_case c d'"
        "list_all2 same_ignoring_case t mid'"
      by (auto simp: list_all2_Cons1)
    with m 3 show "begins_ignoring_case (c # t) (d # s)"
      by auto
  qed
qed

lemma substring_ignoring_case_iff:
  "substring_ignoring_case t s \<longleftrightarrow>
     (\<exists>pre mid post. s = pre @ mid @ post \<and> list_all2 same_ignoring_case t mid)"
proof (induction s)
  case Nil
  then show ?case by auto
next
  case (Cons d s)
  show ?case
  proof
    assume "substring_ignoring_case t (d # s)"
    then consider "begins_ignoring_case t (d # s)" | "substring_ignoring_case t s"
      by auto
    then show "\<exists>pre mid post. d # s = pre @ mid @ post \<and> list_all2 same_ignoring_case t mid"
    proof cases
      case 1
      then obtain mid post where "d # s = [] @ mid @ post" "list_all2 same_ignoring_case t mid"
        by (auto simp: begins_ignoring_case_iff)
      then show ?thesis by blast
    next
      case 2
      then obtain pre mid post where "s = pre @ mid @ post" "list_all2 same_ignoring_case t mid"
        using Cons.IH by blast
      then have "d # s = (d # pre) @ mid @ post \<and> list_all2 same_ignoring_case t mid"
        by simp
      then show ?thesis by blast
    qed
  next
    assume "\<exists>pre mid post. d # s = pre @ mid @ post \<and> list_all2 same_ignoring_case t mid"
    then obtain pre mid post where
      m: "d # s = pre @ mid @ post" "list_all2 same_ignoring_case t mid"
      by blast
    show "substring_ignoring_case t (d # s)"
    proof (cases pre)
      case Nil
      with m have "begins_ignoring_case t (d # s)"
        by (auto simp: begins_ignoring_case_iff)
      then show ?thesis by simp
    next
      case (Cons a pre')
      with m have "s = pre' @ mid @ post" by simp
      with m(2) have "substring_ignoring_case t s"
        using Cons.IH by blast
      then show ?thesis by simp
    qed
  qed
qed



section \<open>The audio session\<close>

text \<open>
  C7, as stated, fails. \<^verbatim>\<open>dev1\<close> is shown after a successful poll and has no
  \<^verbatim>\<open>latest_audio\<close>. \<^verbatim>\<open>handlePlayAudio\<close> for it changes nothing at all: nothing is
  written to the error cell or to the console, which are both empty, so no failure of any
  name is reported.
\<close>

theorem no_audio_is_silent:
  "handlePlayAudio env_local dev1 (fetchDashboardData env_local (io_ok snapshot1) initial) =
     fetchDashboardData env_local (io_ok snapshot1) initial \<and>
   error (fetchDashboardData env_local (io_ok snapshot1) initial) = None \<and>
   console (fetchDashboardData env_local (io_ok snapshot1) initial) = []"
proof -
  have "handlePlayAudio env_local dev1 w = w" for w
    by (simp add: handlePlayAudio_def dev1_def)
  moreover have "error (fetchDashboardData env_local (io_ok snapshot1) initial) = None"
    using fetch_ok [OF attempt_io_ok, of env_local snapshot1 initial] by (simp add: cells_def)
  moreover have "console (fetchDashboardData env_local (io_ok snapshot1) initial) = []"
    by (simp add: fetchDashboardData_phases poll_data_def poll_health_def io_ok_def
          request_settle_def ok_def health_warn_def request_send_def fetch_settled_def
          initial_def)
  ultimately show ?thesis by simp
qed

text \<open>
  C7, amended. For every device whose \<^verbatim>\<open>latest_audio\<close> is absent or empty,
  \<^verbatim>\<open>handlePlayAudio\<close> does nothing: it reports no error, sends no request and leaves the
  audio session as it was, so none is created.
\<close>

theorem no_audio_no_session:
  assumes "\<not> truthy (latest_audio u)"
  shows "handlePlayAudio e u w = w"
  using assms by (simp add: handlePlayAudio_def truthy_def split: option.splits)

theorem no_audio_no_session_witness:
  "\<not> truthy (latest_audio dev1) \<and> handlePlayAudio env_local dev1 initial = initial"
proof -
  have h: "\<not> truthy (latest_audio dev1)"
    by (simp add: truthy_def dev1_def)
  from no_audio_no_session [OF h, of env_local initial] h show ?thesis by simp
qed

text \<open>
  C8. At most one audio session is open at any time. Asking to play the audio of a device
  \<open>b\<close> that has one, whatever session is open, leaves exactly one session open, the one
  of \<open>b\<close>. \<^verbatim>\<open>handleCloseAudio\<close> leaves none open, and changes nothing when none was.
\<close>

theorem single_audio_session:
  assumes "latest_audio b = Some path" and "path \<noteq> []"
  shows "length (open_sessions w) \<le> 1 \<and>
         open_sessions (handlePlayAudio e b w) =
           [\<lparr> url = apiBaseUrl e @ path, user = user_id b,
              filename = last (split CHR ''/'' path) \<rparr>] \<and>
         open_sessions (handleCloseAudio w) = [] \<and>
         (open_sessions w = [] \<longrightarrow> handleCloseAudio w = w)"
  using assms
  by (simp add: open_sessions_def handlePlayAudio_def handleCloseAudio_def
        split: option.splits)

theorem single_audio_session_witness:
  "latest_audio dev3 = Some ''/api/uploads/Tablet-3/rec_0007.wav'' \<and>
   open_sessions (handlePlayAudio env_local dev2 initial) =
     [\<lparr> url = ''http://localhost:5000/api/uploads/dev2/rec_0042.wav'', user = ''dev2'',
        filename = ''rec_0042.wav'' \<rparr>] \<and>
   open_sessions (handlePlayAudio env_local dev3 (handlePlayAudio env_local dev2 initial)) =
     [\<lparr> url = ''http://localhost:5000/api/uploads/Tablet-3/rec_0007.wav'', user = ''Tablet-3'',
        filename = ''rec_0007.wav'' \<rparr>] \<and>
   open_sessions (handleCloseAudio (handlePlayAudio env_local dev3 initial)) = [] \<and>
   handleCloseAudio initial = initial"
proof -
  have h1: "latest_audio dev3 = Some ''/api/uploads/Tablet-3/rec_0007.wav''"
    by (simp add: dev3_def)
  have h2: "''/api/uploads/Tablet-3/rec_0007.wav'' \<noteq> []"
    by simp
  have a: "open_sessions (handlePlayAudio env_local dev2 initial) =
     [\<lparr> url = ''http://localhost:5000/api/uploads/dev2/rec_0042.wav'', user = ''dev2'',
        filename = ''rec_0042.wav'' \<rparr>]"
    by (simp add: open_sessions_def handlePlayAudio_def dev2_def apiBaseUrl_def env_local_def)
  have i: "open_sessions initial = []"
    by (simp add: open_sessions_def initial_def)
  have u: "user_id dev3 = ''Tablet-3'' \<and> apiBaseUrl env_local = ''http://localhost:5000'' \<and>
     last (split CHR ''/'' ''/api/uploads/Tablet-3/rec_0007.wav'') = ''rec_0007.wav''"
    by (simp add: dev3_def apiBaseUrl_def env_local_def)
  from single_audio_session [OF h1 h2, of "handlePlayAudio env_local dev2 initial" env_local]
    single_audio_session [OF h1 h2, of "handlePlayAudio env_local dev3 initial" env_local]
    single_audio_session [OF h1 h2, of initial env_local]
    h1 a i u
  show ?thesis by simp
qed

text \<open>
  C9 does not hold of the code. In a development build with \<^verbatim>\<open>REACT_APP_API_URL\<close> set,
  the adapter sends its requests to the configured origin, while \<^verbatim>\<open>handlePlayAudio\<close>
  builds the playback address on \<^verbatim>\<open>http://localhost:5000\<close>.
\<close>

theorem playback_base_ignores_override:
  "baseURL env_override = ''http://10.0.0.5:5000'' \<and>
   apiBaseUrl env_override = ''http://localhost:5000'' \<and>
   network (request_send env_override ''GET'' ''/api/dashboard-data'' initial) =
     [\<lparr> req_method = ''GET'', req_url = ''http://10.0.0.5:5000/api/dashboard-data'' \<rparr>] \<and>
   currentAudio (handlePlayAudio env_override dev2 initial) =
     Some \<lparr> url = ''http://localhost:5000/api/uploads/dev2/rec_0042.wav'', user = ''dev2'',
            filename = ''rec_0042.wav'' \<rparr>"
  by (simp add: env_override_def baseURL_def API_BASE_URL_def getApiUrl_def or_else_def
        apiBaseUrl_def request_send_def initial_def handlePlayAudio_def dev2_def)

end
